theory Spec2Isabelle
  imports Complex_Main
begin

section \<open>JavaScript values used by the template\<close>

text \<open>
  A \<^verbatim>\<open>Date\<close> is its number of milliseconds since the epoch. Every \<^verbatim>\<open>new Date()\<close> of
  the source reads the clock; the model takes that reading as the argument \<open>now\<close>, one
  reading for the whole call.
\<close>

type_synonym date = int

subsection \<open>Strings\<close>

text \<open>
  A string is the list of its code units; the model keeps the code units U+0000 to U+00FF
  (one \<^typ>\<open>char\<close> each). In that range the white space that \<^verbatim>\<open>String.prototype.trim\<close>
  strips is TAB, LF, VT, FF, CR, SPACE and NO-BREAK SPACE.
\<close>

definition isWhiteSpace :: "char \<Rightarrow> bool" where
  "isWhiteSpace c =
     (c = CHR 0x09 \<or> c = CHR 0x0A \<or> c = CHR 0x0B \<or> c = CHR 0x0C \<or> c = CHR 0x0D
      \<or> c = CHR 0x20 \<or> c = CHR 0xA0)"

definition trim :: "string \<Rightarrow> string" where
  "trim s = rev (dropWhile isWhiteSpace (rev (dropWhile isWhiteSpace s)))"

text \<open>
  A property typed \<^verbatim>\<open>string\<close> can still be \<^verbatim>\<open>undefined\<close> at run time (the tests
  pass such objects), so it is a \<^typ>\<open>string option\<close>. \<^verbatim>\<open>!x\<close> holds of \<^verbatim>\<open>undefined\<close>
  and of the empty string.
\<close>

definition truthy_string :: "string option \<Rightarrow> bool" where
  "truthy_string r = (case r of None \<Rightarrow> False | Some t \<Rightarrow> t \<noteq> [])"

subsection \<open>Numbers\<close>

text \<open>
  A finite \<^verbatim>\<open>number\<close> is a rational. The entity and the routing only compare
  numbers, with 0, with 1 and with one another, and comparison is exact.
  \<^verbatim>\<open>undefined\<close> and 0 are the falsy ones.
\<close>

type_synonym number = rat

definition truthy_number :: "number option \<Rightarrow> bool" where
  "truthy_number x = (case x of None \<Rightarrow> False | Some n \<Rightarrow> n \<noteq> 0)"

subsection \<open>Thrown values\<close>

text \<open>
  What a \<^verbatim>\<open>throw\<close> carries: a plain \<^verbatim>\<open>Error\<close> with its message, one of the domain
  errors with the arguments of its constructor, or a value that is no \<^verbatim>\<open>Error\<close> at all,
  kept as the text \<^verbatim>\<open>String(value)\<close> gives. A function that can throw returns
  \<open>thrown + 'a\<close>, \<open>Inl\<close> being the throw.
\<close>

datatype thrown =
    Error string
  | AgentNotFoundError string
  | InvalidAgentConfigError string
  | SessionNotFoundError string
  | ToolExecutionError string string
  | NonError string

fun instanceof_Error :: "thrown \<Rightarrow> bool" where
  "instanceof_Error (NonError v) = False"
| "instanceof_Error e = True"

fun message :: "thrown \<Rightarrow> string" where
  "message (Error m) = m"
| "message (AgentNotFoundError agentId) = ''Agent with ID \"'' @ agentId @ ''\" not found''"
| "message (InvalidAgentConfigError reason) = ''Invalid agent configuration: '' @ reason"
| "message (SessionNotFoundError sid) = ''Session with ID \"'' @ sid @ ''\" not found''"
| "message (ToolExecutionError toolName reason) =
     ''Tool \"'' @ toolName @ ''\" execution failed: '' @ reason"
| "message (NonError v) = v"

fun code :: "thrown \<Rightarrow> string option" where
  "code (AgentNotFoundError a) = Some ''AGENT_NOT_FOUND''"
| "code (InvalidAgentConfigError r) = Some ''INVALID_AGENT_CONFIG''"
| "code (SessionNotFoundError s) = Some ''SESSION_NOT_FOUND''"
| "code (ToolExecutionError n r) = Some ''TOOL_EXECUTION_ERROR''"
| "code e = None"

fun statusCode :: "thrown \<Rightarrow> nat option" where
  "statusCode (AgentNotFoundError a) = Some 404"
| "statusCode (InvalidAgentConfigError r) = Some 400"
| "statusCode (SessionNotFoundError s) = Some 404"
| "statusCode (ToolExecutionError n r) = Some 400"
| "statusCode e = None"

text \<open>\<^verbatim>\<open>error instanceof Error ? error.message : String(error)\<close>\<close>

fun error_text :: "thrown \<Rightarrow> string" where
  "error_text (NonError v) = v"
| "error_text e = message e"

subsection \<open>Map: insertion-ordered key/value table\<close>

text \<open>
  The repositories and the registry keep a \<^verbatim>\<open>Map<string, T>\<close>. A JavaScript Map iterates
  in insertion order, \<^verbatim>\<open>set\<close> on a key that is present replaces the value in place and
  \<^verbatim>\<open>set\<close> on a new key appends. The model is an association list in that order.
\<close>

type_synonym ('k, 'v) jsmap = "('k \<times> 'v) list"

fun map_get :: "('k, 'v) jsmap \<Rightarrow> 'k \<Rightarrow> 'v option" where
  "map_get [] k = None"
| "map_get ((k', v) # m) k = (if k' = k then Some v else map_get m k)"

definition map_has :: "('k, 'v) jsmap \<Rightarrow> 'k \<Rightarrow> bool" where
  "map_has m k = (map_get m k \<noteq> None)"

fun map_set :: "('k, 'v) jsmap \<Rightarrow> 'k \<Rightarrow> 'v \<Rightarrow> ('k, 'v) jsmap" where
  "map_set [] k v = [(k, v)]"
| "map_set ((k', v') # m) k v = (if k' = k then (k, v) # m else (k', v') # map_set m k v)"

definition map_delete :: "('k, 'v) jsmap \<Rightarrow> 'k \<Rightarrow> ('k, 'v) jsmap" where
  "map_delete m k = filter (\<lambda>p. fst p \<noteq> k) m"

definition map_values :: "('k, 'v) jsmap \<Rightarrow> 'v list" where
  "map_values m = map snd m"

definition map_size :: "('k, 'v) jsmap \<Rightarrow> nat" where
  "map_size m = length m"

section \<open>Domain types (agent.types.ts)\<close>

datatype AgentTypeEnum = GENERAL | SPECIALIZED | MULTI_AGENT

datatype LLMProviderEnum = OPENAI | ANTHROPIC | AZURE

datatype SessionStatusEnum = ACTIVE | PAUSED | COMPLETED | FAILED | INTERRUPTED

text \<open>
  A metadata record (\<^verbatim>\<open>Record<string, any>\<close>) is a table from property names to values;
  the only values the entities themselves write are the reason strings.
\<close>

type_synonym metadata = "(string, string) jsmap"

text \<open>
  The interfaces as they are at run time: any property can be \<^verbatim>\<open>undefined\<close>
  (\<open>None\<close>), whatever the declared type says.
\<close>

record LLMModelConfig =
  llm_provider :: "LLMProviderEnum option"
  llm_modelName :: "string option"
  llm_temperature :: "number option"
  llm_maxTokens :: "number option"
  llm_topP :: "number option"

record AgentConfig =
  cfg_type :: "AgentTypeEnum option"
  cfg_name :: "string option"
  cfg_description :: "string option"
  cfg_llmConfig :: "LLMModelConfig option"
  cfg_maxIterations :: "number option"
  cfg_timeoutMs :: "number option"
  cfg_systemPrompt :: "string option"
  cfg_enableMemory :: "bool option"
  cfg_enableStreaming :: "bool option"
  cfg_tools :: "string list option"
  cfg_metadata :: "metadata option"

text \<open>
  \<^verbatim>\<open>Partial<AgentConfig>\<close>: a property is absent (\<open>None\<close>) or present with a value,
  which can itself be \<^verbatim>\<open>undefined\<close> (\<open>Some None\<close>).
\<close>

record PartialAgentConfig =
  part_type :: "AgentTypeEnum option option"
  part_name :: "string option option"
  part_description :: "string option option"
  part_llmConfig :: "LLMModelConfig option option"
  part_maxIterations :: "number option option"
  part_timeoutMs :: "number option option"
  part_systemPrompt :: "string option option"
  part_enableMemory :: "bool option option"
  part_enableStreaming :: "bool option option"
  part_tools :: "string list option option"
  part_metadata :: "metadata option option"

text \<open>
  The object spread \<^verbatim>\<open>{ ...config, ...newConfig }\<close>: every property present in
  \<^verbatim>\<open>newConfig\<close> replaces the one of \<^verbatim>\<open>config\<close>, also by \<^verbatim>\<open>undefined\<close>.
\<close>

definition spread_prop :: "'a \<Rightarrow> 'a option \<Rightarrow> 'a" where
  "spread_prop old new = (case new of None \<Rightarrow> old | Some v \<Rightarrow> v)"

definition spread :: "AgentConfig \<Rightarrow> PartialAgentConfig \<Rightarrow> AgentConfig" where
  "spread c n =
     \<lparr>cfg_type = spread_prop (cfg_type c) (part_type n),
      cfg_name = spread_prop (cfg_name c) (part_name n),
      cfg_description = spread_prop (cfg_description c) (part_description n),
      cfg_llmConfig = spread_prop (cfg_llmConfig c) (part_llmConfig n),
      cfg_maxIterations = spread_prop (cfg_maxIterations c) (part_maxIterations n),
      cfg_timeoutMs = spread_prop (cfg_timeoutMs c) (part_timeoutMs n),
      cfg_systemPrompt = spread_prop (cfg_systemPrompt c) (part_systemPrompt n),
      cfg_enableMemory = spread_prop (cfg_enableMemory c) (part_enableMemory n),
      cfg_enableStreaming = spread_prop (cfg_enableStreaming c) (part_enableStreaming n),
      cfg_tools = spread_prop (cfg_tools c) (part_tools n),
      cfg_metadata = spread_prop (cfg_metadata c) (part_metadata n)\<rparr>"

section \<open>Agent entity (agent.entity.ts)\<close>

record Agent =
  agent_id :: string
  agent_createdAt :: date
  agent_updatedAt :: date
  agent_config :: AgentConfig
  agent_isActive :: bool

text \<open>\<^verbatim>\<open>!config.name || config.name.trim().length === 0\<close>\<close>

definition name_blank :: "string option \<Rightarrow> bool" where
  "name_blank n = (\<not> truthy_string n \<or> length (trim (the n)) = 0)"

text \<open>\<^verbatim>\<open>!config.llmConfig || !config.llmConfig.modelName\<close>\<close>

definition model_missing :: "LLMModelConfig option \<Rightarrow> bool" where
  "model_missing l = (case l of None \<Rightarrow> True | Some c \<Rightarrow> \<not> truthy_string (llm_modelName c))"

text \<open>The private \<^verbatim>\<open>Agent.validateConfig\<close>, its five checks in the order of the source.\<close>

definition agent_validateConfig :: "AgentConfig \<Rightarrow> thrown + unit" where
  "agent_validateConfig config =
     (if name_blank (cfg_name config) then Inl (Error ''Agent name cannot be empty'')
      else if cfg_type config = None then Inl (Error ''Agent type is required'')
      else if model_missing (cfg_llmConfig config)
        then Inl (Error ''LLM configuration with model name is required'')
      else if truthy_number (cfg_maxIterations config)
              \<and> the (cfg_maxIterations config) > 0 \<and> the (cfg_maxIterations config) < 1
        then Inl (Error ''Max iterations must be greater than 0'')
      else if truthy_number (cfg_timeoutMs config) \<and> the (cfg_timeoutMs config) \<le> 0
        then Inl (Error ''Timeout must be greater than 0'')
      else Inr ())"

text \<open>
  The constructor. Its optional arguments are \<open>None\<close> when left out; \<open>uuid\<close> is what
  \<^verbatim>\<open>generateId()\<close> returns and \<open>now\<close> what \<^verbatim>\<open>new Date()\<close> reads.
\<close>

definition new_Agent ::
  "string \<Rightarrow> date \<Rightarrow> AgentConfig \<Rightarrow> string option \<Rightarrow> bool option \<Rightarrow> date option \<Rightarrow> date option
   \<Rightarrow> thrown + Agent" where
  "new_Agent uuid now config ident isActive createdAt updatedAt =
     (case agent_validateConfig config of
        Inl e \<Rightarrow> Inl e
      | Inr u \<Rightarrow>
          Inr \<lparr>agent_id = (case ident of None \<Rightarrow> uuid | Some i \<Rightarrow> i),
               agent_createdAt = (case createdAt of None \<Rightarrow> now | Some d \<Rightarrow> d),
               agent_updatedAt = (case updatedAt of None \<Rightarrow> now | Some d \<Rightarrow> d),
               agent_config = config,
               agent_isActive = (case isActive of None \<Rightarrow> True | Some b \<Rightarrow> b)\<rparr>)"

definition getId :: "Agent \<Rightarrow> string" where
  "getId a = agent_id a"

definition getConfig :: "Agent \<Rightarrow> AgentConfig" where
  "getConfig a = agent_config a"

definition getName :: "Agent \<Rightarrow> string option" where
  "getName a = cfg_name (agent_config a)"

definition getType :: "Agent \<Rightarrow> AgentTypeEnum option" where
  "getType a = cfg_type (agent_config a)"

definition isAgentActive :: "Agent \<Rightarrow> bool" where
  "isAgentActive a = agent_isActive a"

definition updateConfig :: "date \<Rightarrow> PartialAgentConfig \<Rightarrow> Agent \<Rightarrow> thrown + Agent" where
  "updateConfig now newConfig a =
     (let mergedConfig = spread (agent_config a) newConfig
      in case agent_validateConfig mergedConfig of
           Inl e \<Rightarrow> Inl e
         | Inr u \<Rightarrow> Inr (a\<lparr>agent_config := mergedConfig, agent_updatedAt := now\<rparr>))"

section \<open>Session entity (session.entity.ts)\<close>

text \<open>Field names carry the entity as a prefix where two entities share a name.\<close>

record Session =
  sessionId :: string
  session_agentId :: string
  session_createdAt :: date
  session_updatedAt :: date
  session_expiresAt :: "date option"
  session_status :: SessionStatusEnum
  session_metadata :: metadata

definition getStatus :: "Session \<Rightarrow> SessionStatusEnum" where
  "getStatus s = session_status s"

definition pause :: "date \<Rightarrow> Session \<Rightarrow> Session" where
  "pause now s =
     (if session_status s = ACTIVE then s\<lparr>session_status := PAUSED, session_updatedAt := now\<rparr> else s)"

definition resume :: "date \<Rightarrow> Session \<Rightarrow> Session" where
  "resume now s =
     (if session_status s = PAUSED then s\<lparr>session_status := ACTIVE, session_updatedAt := now\<rparr> else s)"

definition complete_session :: "date \<Rightarrow> Session \<Rightarrow> Session" where
  "complete_session now s =
     (if session_status s = ACTIVE \<or> session_status s = PAUSED
      then s\<lparr>session_status := COMPLETED, session_updatedAt := now\<rparr> else s)"

text \<open>
  The optional \<^verbatim>\<open>reason\<close> is \<open>None\<close> when the argument is left out; the test
  \<^verbatim>\<open>if (reason)\<close> also skips the empty string.
\<close>

definition fail :: "date \<Rightarrow> string option \<Rightarrow> Session \<Rightarrow> Session" where
  "fail now reason s =
     (let s1 = s\<lparr>session_status := FAILED, session_updatedAt := now\<rparr>
      in if truthy_string reason
         then s1\<lparr>session_metadata := map_set (session_metadata s1) ''failureReason'' (the reason)\<rparr>
         else s1)"

definition interrupt :: "date \<Rightarrow> string option \<Rightarrow> Session \<Rightarrow> Session" where
  "interrupt now reason s =
     (let s1 = s\<lparr>session_status := INTERRUPTED, session_updatedAt := now\<rparr>
      in if truthy_string reason
         then s1\<lparr>session_metadata := map_set (session_metadata s1) ''interruptReason'' (the reason)\<rparr>
         else s1)"

section \<open>Pagination (common.types.ts)\<close>

text \<open>
  Skip and take are integer-valued numbers, so that \<^verbatim>\<open>skip + take\<close> is exact.
  \<^verbatim>\<open>orderBy\<close> and \<^verbatim>\<open>order\<close> are carried and never read.
\<close>

datatype SortOrder = ASC | DESC

record PageCursor =
  cursor_skip :: "int option"
  cursor_take :: "int option"
  cursor_orderBy :: "string option"
  cursor_order :: "SortOrder option"

record 'a PaginatedResponse =
  page_data :: "'a list"
  page_total :: nat
  page_skip :: int
  page_take :: int

text \<open>\<^verbatim>\<open>x || d\<close> on a number that may be \<^verbatim>\<open>undefined\<close>: \<open>d\<close> replaces \<^verbatim>\<open>undefined\<close> and 0.\<close>

definition or_default :: "int option \<Rightarrow> int \<Rightarrow> int" where
  "or_default x d = (case x of None \<Rightarrow> d | Some n \<Rightarrow> if n = 0 then d else n)"

text \<open>\<^verbatim>\<open>cursor?.skip\<close> and \<^verbatim>\<open>cursor?.take\<close>: \<^verbatim>\<open>undefined\<close> when there is no cursor.\<close>

definition opt_skip :: "PageCursor option \<Rightarrow> int option" where
  "opt_skip cursor = (case cursor of None \<Rightarrow> None | Some c \<Rightarrow> cursor_skip c)"

definition opt_take :: "PageCursor option \<Rightarrow> int option" where
  "opt_take cursor = (case cursor of None \<Rightarrow> None | Some c \<Rightarrow> cursor_take c)"

text \<open>
  \<^verbatim>\<open>Array.prototype.slice(start, stop)\<close> on integers: a negative index counts from the
  end, both are clamped to the array, and an empty range gives the empty array.
\<close>

definition slice :: "'a list \<Rightarrow> int \<Rightarrow> int \<Rightarrow> 'a list" where
  "slice xs start stop =
     (let len = int (length xs);
          k = (if start < 0 then max (len + start) 0 else min start len);
          final = (if stop < 0 then max (len + stop) 0 else min stop len)
      in take (nat (final - k)) (drop (nat k) xs))"

text \<open>
  The paginating queries of both repositories end in the same four statements on the
  array they have built; \<open>paginate\<close> is these statements.
\<close>

definition paginate :: "'a list \<Rightarrow> PageCursor option \<Rightarrow> 'a PaginatedResponse" where
  "paginate items cursor =
     (let skip = or_default (opt_skip cursor) 0;
          take = or_default (opt_take cursor) 10
      in \<lparr>page_data = slice items skip (skip + take),
          page_total = length items,
          page_skip = skip,
          page_take = take\<rparr>)"

section \<open>In-memory agent repository (in-memory-agent.repository.ts)\<close>

text \<open>
  The repository is its Map \<^verbatim>\<open>agents\<close>. A query returns its value; a method that writes
  returns how its promise settles (\<open>Inr ()\<close> when it resolves) and the Map afterwards.
\<close>

type_synonym agent_store = "(string, Agent) jsmap"

definition agentRepo_findById :: "agent_store \<Rightarrow> string \<Rightarrow> Agent option" where
  "agentRepo_findById agents agentId = map_get agents agentId"

fun findByName_loop :: "Agent list \<Rightarrow> string option \<Rightarrow> Agent option" where
  "findByName_loop [] name = None"
| "findByName_loop (agent # rest) name =
     (if getName agent = name then Some agent else findByName_loop rest name)"

definition agentRepo_findByName :: "agent_store \<Rightarrow> string option \<Rightarrow> Agent option" where
  "agentRepo_findByName agents name = findByName_loop (map_values agents) name"

definition agentRepo_findAll :: "agent_store \<Rightarrow> PageCursor option \<Rightarrow> Agent PaginatedResponse" where
  "agentRepo_findAll agents cursor = paginate (map_values agents) cursor"

definition agentRepo_save :: "agent_store \<Rightarrow> Agent \<Rightarrow> (thrown + unit) \<times> agent_store" where
  "agentRepo_save agents agent = (Inr (), map_set agents (getId agent) agent)"

definition agentRepo_update :: "agent_store \<Rightarrow> Agent \<Rightarrow> (thrown + unit) \<times> agent_store" where
  "agentRepo_update agents agent =
     (if \<not> map_has agents (getId agent)
      then (Inl (Error (''Agent with ID '' @ getId agent @ '' not found'')), agents)
      else (Inr (), map_set agents (getId agent) agent))"

definition agentRepo_delete :: "agent_store \<Rightarrow> string \<Rightarrow> (thrown + unit) \<times> agent_store" where
  "agentRepo_delete agents agentId = (Inr (), map_delete agents agentId)"

definition agentRepo_exists :: "agent_store \<Rightarrow> string \<Rightarrow> bool" where
  "agentRepo_exists agents agentId = map_has agents agentId"

definition agentRepo_count :: "agent_store \<Rightarrow> nat" where
  "agentRepo_count agents = map_size agents"

section \<open>In-memory session repository (in-memory-session.repository.ts)\<close>

type_synonym session_store = "(string, Session) jsmap"

definition getAgentId :: "Session \<Rightarrow> string" where
  "getAgentId s = session_agentId s"

definition getSessionId :: "Session \<Rightarrow> string" where
  "getSessionId s = sessionId s"

definition sessionRepo_findById :: "session_store \<Rightarrow> string \<Rightarrow> Session option" where
  "sessionRepo_findById sessions sid = map_get sessions sid"

definition sessionRepo_findByAgentId ::
  "session_store \<Rightarrow> string \<Rightarrow> PageCursor option \<Rightarrow> Session PaginatedResponse" where
  "sessionRepo_findByAgentId sessions agentId cursor =
     paginate (filter (\<lambda>s. getAgentId s = agentId) (map_values sessions)) cursor"

definition sessionRepo_findByStatus ::
  "session_store \<Rightarrow> SessionStatusEnum \<Rightarrow> PageCursor option \<Rightarrow> Session PaginatedResponse" where
  "sessionRepo_findByStatus sessions st cursor =
     paginate (filter (\<lambda>s. getStatus s = st) (map_values sessions)) cursor"

definition sessionRepo_save :: "session_store \<Rightarrow> Session \<Rightarrow> (thrown + unit) \<times> session_store" where
  "sessionRepo_save sessions session = (Inr (), map_set sessions (getSessionId session) session)"

definition sessionRepo_delete :: "session_store \<Rightarrow> string \<Rightarrow> (thrown + unit) \<times> session_store" where
  "sessionRepo_delete sessions sid = (Inr (), map_delete sessions sid)"

definition sessionRepo_exists :: "session_store \<Rightarrow> string \<Rightarrow> bool" where
  "sessionRepo_exists sessions sid = map_has sessions sid"

section \<open>Create-agent use case (create-agent.usecase.ts)\<close>

text \<open>
  The argument is \<open>None\<close> when the caller passes something that is no object
  (\<^verbatim>\<open>null\<close> in the tests).
\<close>

definition usecase_validateConfig :: "AgentConfig option \<Rightarrow> thrown + unit" where
  "usecase_validateConfig config =
     (case config of
        None \<Rightarrow> Inl (InvalidAgentConfigError ''Configuration must be an object'')
      | Some c \<Rightarrow>
          if name_blank (cfg_name c) then Inl (InvalidAgentConfigError ''Agent name is required'')
          else if cfg_type c = None then Inl (InvalidAgentConfigError ''Agent type is required'')
          else if cfg_llmConfig c = None
            then Inl (InvalidAgentConfigError ''LLM configuration is required'')
          else if \<not> truthy_string (llm_modelName (the (cfg_llmConfig c)))
            then Inl (InvalidAgentConfigError ''LLM model name is required'')
          else Inr ())"

text \<open>
  \<^verbatim>\<open>execute\<close> on the in-memory repository: the outcome of the promise and the Map
  afterwards. A throw leaves the Map as the statements before it left it.
\<close>

definition createAgent_execute ::
  "string \<Rightarrow> date \<Rightarrow> AgentConfig option \<Rightarrow> agent_store \<Rightarrow> (thrown + Agent) \<times> agent_store" where
  "createAgent_execute uuid now config agents =
     (case usecase_validateConfig config of
        Inl e \<Rightarrow> (Inl e, agents)
      | Inr u \<Rightarrow>
          (case agentRepo_findByName agents (cfg_name (the config)) of
             Some existingAgent \<Rightarrow>
               (Inl (InvalidAgentConfigError
                  (''Agent with name \"'' @ the (cfg_name (the config)) @ ''\" already exists'')),
                agents)
           | None \<Rightarrow>
               (case new_Agent uuid now (the config) None None None None of
                  Inl error \<Rightarrow>
                    (if instanceof_Error error
                     then Inl (InvalidAgentConfigError (message error)) else Inl error,
                     agents)
                | Inr agent \<Rightarrow>
                    (case agentRepo_save agents agent of
                       (Inl error, agents') \<Rightarrow>
                         (if instanceof_Error error
                          then Inl (InvalidAgentConfigError (message error)) else Inl error,
                          agents')
                     | (Inr u', agents') \<Rightarrow> (Inr agent, agents')))))"

section \<open>Tool registry (tool-registry.service.ts)\<close>

text \<open>
  \<open>'v\<close> is the type of the values a tool takes and returns (\<^verbatim>\<open>any\<close>). A tool's
  \<^verbatim>\<open>execute\<close> either returns a value or throws; a promise that never settles is outside
  the model. The schema is a table of property names.
\<close>

record 'v ToolDefinition =
  tool_id :: string
  tool_name :: string
  tool_description :: string
  tool_schema :: "(string, 'v) jsmap"
  tool_execute :: "'v \<Rightarrow> thrown + 'v"

text \<open>
  What \<^verbatim>\<open>register\<close> hands to the library's \<^verbatim>\<open>tool(...)\<close>: the wrapped function and
  the name, description and schema keys.
\<close>

record 'v LLMTool =
  llmtool_name :: string
  llmtool_description :: string
  llmtool_schema :: "string list"
  llmtool_func :: "'v \<Rightarrow> thrown + string"

record 'v ToolRegistryService =
  reg_tools :: "(string, 'v ToolDefinition) jsmap"
  reg_llmTools :: "'v LLMTool list"

definition new_ToolRegistryService :: "'v ToolRegistryService" where
  "new_ToolRegistryService = \<lparr>reg_tools = [], reg_llmTools = []\<rparr>"

text \<open>\<open>stringify\<close> stands for \<^verbatim>\<open>JSON.stringify\<close> on the values of type \<open>'v\<close>.\<close>

definition make_llmTool :: "('v \<Rightarrow> string) \<Rightarrow> 'v ToolDefinition \<Rightarrow> 'v LLMTool" where
  "make_llmTool stringify toolDef =
     \<lparr>llmtool_name = tool_name toolDef,
      llmtool_description = tool_description toolDef,
      llmtool_schema = map fst (tool_schema toolDef),
      llmtool_func = (\<lambda>input.
         case tool_execute toolDef input of
           Inr result \<Rightarrow> Inr (stringify result)
         | Inl error \<Rightarrow> Inl (ToolExecutionError (tool_name toolDef) (error_text error)))\<rparr>"

definition register ::
  "('v \<Rightarrow> string) \<Rightarrow> 'v ToolDefinition \<Rightarrow> 'v ToolRegistryService \<Rightarrow> 'v ToolRegistryService" where
  "register stringify toolDef reg =
     reg\<lparr>reg_tools := map_set (reg_tools reg) (tool_id toolDef) toolDef,
         reg_llmTools := reg_llmTools reg @ [make_llmTool stringify toolDef]\<rparr>"

definition getTool :: "'v ToolRegistryService \<Rightarrow> string \<Rightarrow> 'v ToolDefinition option" where
  "getTool reg toolId = map_get (reg_tools reg) toolId"

definition toolExists :: "'v ToolRegistryService \<Rightarrow> string \<Rightarrow> bool" where
  "toolExists reg toolId = map_has (reg_tools reg) toolId"

definition getAllTools :: "'v ToolRegistryService \<Rightarrow> 'v ToolDefinition list" where
  "getAllTools reg = map_values (reg_tools reg)"

text \<open>
  \<^verbatim>\<open>unregister\<close>: the statements in the order of the source. The definition is looked
  up after the entry has been deleted from the Map.
\<close>

definition unregister ::
  "'v ToolRegistryService \<Rightarrow> string \<Rightarrow> bool \<times> 'v ToolRegistryService" where
  "unregister reg toolId =
     (let existed = map_has (reg_tools reg) toolId
      in if existed
         then (let reg1 = reg\<lparr>reg_tools := map_delete (reg_tools reg) toolId\<rparr>;
                   toolDef = map_get (reg_tools reg1) toolId
               in case toolDef of
                    Some d \<Rightarrow>
                      (existed,
                       reg1\<lparr>reg_llmTools :=
                         filter (\<lambda>t. llmtool_name t \<noteq> tool_name d) (reg_llmTools reg1)\<rparr>)
                  | None \<Rightarrow> (existed, reg1))
         else (existed, reg))"

definition registry_execute :: "'v ToolRegistryService \<Rightarrow> string \<Rightarrow> 'v \<Rightarrow> thrown + 'v" where
  "registry_execute reg toolId input =
     (case getTool reg toolId of
        None \<Rightarrow> Inl (ToolExecutionError toolId ''Tool not found'')
      | Some toolDef \<Rightarrow>
          (case tool_execute toolDef input of
             Inr result \<Rightarrow> Inr result
           | Inl error \<Rightarrow> Inl (ToolExecutionError (tool_name toolDef) (error_text error))))"

definition getToolsAsLLMTools :: "'v ToolRegistryService \<Rightarrow> 'v LLMTool list" where
  "getToolsAsLLMTools reg = reg_llmTools reg"

section \<open>Multi-agent supervisor graph (multi-agent.graph.ts)\<close>

subsection \<open>String operations of the routing\<close>

text \<open>
  \<^verbatim>\<open>toLowerCase\<close> on the code units U+0000 to U+00FF: A to Z, and the capital letters
  U+00C0 to U+00DE but the multiplication sign U+00D7, move up by 32.
\<close>

definition lower_char :: "char \<Rightarrow> char" where
  "lower_char c =
     (let n = (of_char c :: nat)
      in if (65 \<le> n \<and> n \<le> 90) \<or> (192 \<le> n \<and> n \<le> 222 \<and> n \<noteq> 215)
         then char_of (n + 32) else c)"

definition toLowerCase :: "string \<Rightarrow> string" where
  "toLowerCase s = map lower_char s"

text \<open>\<^verbatim>\<open>s.includes(sub)\<close>: \<open>sub\<close> starts at some position of \<open>s\<close>.\<close>

definition startsWith :: "string \<Rightarrow> string \<Rightarrow> bool" where
  "startsWith s sub = (take (length sub) s = sub)"

fun includes_str :: "string \<Rightarrow> string \<Rightarrow> bool" where
  "includes_str [] sub = (sub = [])"
| "includes_str (c # cs) sub = (startsWith (c # cs) sub \<or> includes_str cs sub)"

subsection \<open>State and routing\<close>

text \<open>
  The content of a message is a string or a structured value; the structured value is
  kept as the text \<^verbatim>\<open>JSON.stringify\<close> gives for it.
\<close>

datatype MessageContent = StringContent string | ComplexContent string

record BaseMessage =
  msg_content :: "MessageContent option"

record AgentState =
  st_messages :: "BaseMessage list"
  st_query :: string
  st_toolResults :: metadata
  st_metadata :: metadata
  st_iterations :: "number option"
  st_error :: "string option"
  st_output :: "string option"

text \<open>\<open>'w\<close> is the type of the worker agents; the routing reads their names only.\<close>

record 'w MultiAgentGraph =
  graph_maxIterations :: number
  graph_workers :: "(string, 'w) jsmap"

definition new_MultiAgentGraph :: "number option \<Rightarrow> 'w MultiAgentGraph" where
  "new_MultiAgentGraph maxIterations =
     \<lparr>graph_maxIterations = (case maxIterations of None \<Rightarrow> 10 | Some m \<Rightarrow> m),
      graph_workers = []\<rparr>"

definition registerWorker :: "string \<Rightarrow> 'w \<Rightarrow> 'w MultiAgentGraph \<Rightarrow> 'w MultiAgentGraph" where
  "registerWorker name agent g = g\<lparr>graph_workers := map_set (graph_workers g) name agent\<rparr>"

text \<open>
  \<^verbatim>\<open>state.messages[state.messages.length - 1]?.content\<close>: \<^verbatim>\<open>undefined\<close> when there
  is no message.
\<close>

definition contentValue :: "AgentState \<Rightarrow> MessageContent option" where
  "contentValue state =
     (case st_messages state of [] \<Rightarrow> None | m # ms \<Rightarrow> msg_content (last (m # ms)))"

text \<open>
  The text that is searched: the string itself, else the JSON text of the content, which
  for \<^verbatim>\<open>undefined\<close> is that of the empty string, a pair of double quotes.
\<close>

definition route_content :: "AgentState \<Rightarrow> string" where
  "route_content state =
     toLowerCase
       (case contentValue state of
          Some (StringContent s) \<Rightarrow> s
        | Some (ComplexContent json) \<Rightarrow> json
        | None \<Rightarrow> ''\"\"'')"

fun route_loop :: "string \<Rightarrow> string list \<Rightarrow> string" where
  "route_loop content [] = ''end''"
| "route_loop content (workerName # rest) =
     (if includes_str content (toLowerCase workerName) then workerName
      else route_loop content rest)"

definition routeWork :: "'w MultiAgentGraph \<Rightarrow> AgentState \<Rightarrow> string" where
  "routeWork g state =
     (let content = route_content state
      in if (case st_iterations state of None \<Rightarrow> 0 | Some i \<Rightarrow> i) \<ge> graph_maxIterations g
         then ''end''
         else route_loop content (map fst (graph_workers g)))"

section \<open>Notions of the specification and fixtures of the tests\<close>

text \<open>
  The invariant as the specification words it: the name is non-empty after trimming, the
  type is present and the model name of the LLM configuration is non-empty.
\<close>

definition config_invariant :: "AgentConfig \<Rightarrow> bool" where
  "config_invariant c =
     ((case cfg_name c of None \<Rightarrow> False | Some n \<Rightarrow> trim n \<noteq> [])
      \<and> cfg_type c \<noteq> None
      \<and> (case cfg_llmConfig c of
           None \<Rightarrow> False
         | Some l \<Rightarrow> (case llm_modelName l of None \<Rightarrow> False | Some m \<Rightarrow> m \<noteq> [])))"

definition agent_invariant :: "Agent \<Rightarrow> bool" where
  "agent_invariant a = config_invariant (agent_config a)"

text \<open>The configuration the test files build in \<^verbatim>\<open>beforeEach\<close>.\<close>

definition testConfig :: AgentConfig where
  "testConfig =
     \<lparr>cfg_type = Some GENERAL, cfg_name = Some ''Test Agent'', cfg_description = None,
      cfg_llmConfig = Some \<lparr>llm_provider = Some OPENAI, llm_modelName = Some ''gpt-4'',
                            llm_temperature = None, llm_maxTokens = None, llm_topP = None\<rparr>,
      cfg_maxIterations = None, cfg_timeoutMs = None, cfg_systemPrompt = None,
      cfg_enableMemory = None, cfg_enableStreaming = None, cfg_tools = None,
      cfg_metadata = None\<rparr>"

text \<open>The partial configuration \<^verbatim>\<open>{}\<close>.\<close>

definition no_changes :: PartialAgentConfig where
  "no_changes =
     \<lparr>part_type = None, part_name = None, part_description = None, part_llmConfig = None,
      part_maxIterations = None, part_timeoutMs = None, part_systemPrompt = None,
      part_enableMemory = None, part_enableStreaming = None, part_tools = None,
      part_metadata = None\<rparr>"

text \<open>
  The agent and a session around it, as the repository tests build them, and a second
  agent of another name.
\<close>

definition testAgent :: Agent where
  "testAgent =
     \<lparr>agent_id = ''test-id'', agent_createdAt = 7, agent_updatedAt = 7,
      agent_config = testConfig, agent_isActive = True\<rparr>"

definition otherAgent :: Agent where
  "otherAgent =
     \<lparr>agent_id = ''other-id'', agent_createdAt = 3, agent_updatedAt = 3,
      agent_config = testConfig\<lparr>cfg_name := Some ''Other Agent''\<rparr>, agent_isActive = True\<rparr>"

definition testSession :: Session where
  "testSession =
     \<lparr>sessionId = ''s1'', session_agentId = ''test-id'', session_createdAt = 7,
      session_updatedAt = 7, session_expiresAt = None, session_status = ACTIVE,
      session_metadata = []\<rparr>"

text \<open>
  The page as the specification words it: skip and take are replaced by 0 and 10 when
  they are absent, and the data are the items from index skip up to skip + take.
\<close>

definition absent_default :: "int option \<Rightarrow> int \<Rightarrow> int" where
  "absent_default x d = (case x of None \<Rightarrow> d | Some n \<Rightarrow> n)"

definition claimed_page :: "'a list \<Rightarrow> PageCursor option \<Rightarrow> 'a PaginatedResponse" where
  "claimed_page items cursor =
     (let skip = absent_default (opt_skip cursor) 0;
          take_n = absent_default (opt_take cursor) 10
      in \<lparr>page_data = take (nat take_n) (drop (nat skip) items),
          page_total = length items,
          page_skip = skip,
          page_take = take_n\<rparr>)"

text \<open>Two tools over string values: one returns its input, one always throws.\<close>

definition echoTool :: "string ToolDefinition" where
  "echoTool =
     \<lparr>tool_id = ''tool-1'', tool_name = ''echo'', tool_description = ''Echoes its input'',
      tool_schema = [(''text'', ''string'')], tool_execute = (\<lambda>input. Inr input)\<rparr>"

definition failingTool :: "string ToolDefinition" where
  "failingTool =
     \<lparr>tool_id = ''tool-2'', tool_name = ''broken'', tool_description = ''Always throws'',
      tool_schema = [], tool_execute = (\<lambda>input. Inl (Error ''boom''))\<rparr>"

text \<open>
  The words of the specification about routing: the iteration counter with its default,
  a string occurring as a substring of another, the content of the last message as a
  text, and a worker whose lowercased name occurs in the lowercased text. The text of a
  string content is the string; the text of a structured content is its JSON text; and
  where there is no message, or the last message has no content, the text is the JSON
  text of the empty string, which is two double quotes.
\<close>

definition iteration_count :: "AgentState \<Rightarrow> number" where
  "iteration_count state = (case st_iterations state of None \<Rightarrow> 0 | Some i \<Rightarrow> i)"

definition occurs_in :: "string \<Rightarrow> string \<Rightarrow> bool" where
  "occurs_in sub s = (\<exists>before after. s = before @ sub @ after)"

fun content_text :: "MessageContent option \<Rightarrow> string" where
  "content_text (Some (StringContent s)) = s"
| "content_text (Some (ComplexContent json)) = json"
| "content_text None = ''\"\"''"

definition searched_text :: "AgentState \<Rightarrow> string" where
  "searched_text state =
     (if st_messages state = [] then ''\"\"''
      else content_text (msg_content (last (st_messages state))))"

definition worker_matches :: "AgentState \<Rightarrow> string \<Rightarrow> bool" where
  "worker_matches state workerName =
     occurs_in (toLowerCase workerName) (toLowerCase (searched_text state))"

text \<open>
  A supervisor with two workers, registered in this order, and one whose only worker is
  named by a double quote; a state of two messages with string contents, and the state of
  any list of messages.
\<close>

definition exampleGraph :: "unit MultiAgentGraph" where
  "exampleGraph =
     registerWorker ''Coder'' () (registerWorker ''Researcher'' () (new_MultiAgentGraph None))"

definition exampleState :: "string \<Rightarrow> number option \<Rightarrow> AgentState" where
  "exampleState body n =
     \<lparr>st_messages = [\<lparr>msg_content = Some (StringContent ''hello'')\<rparr>,
                     \<lparr>msg_content = Some (StringContent body)\<rparr>],
      st_query = ''q'', st_toolResults = [], st_metadata = [],
      st_iterations = n, st_error = None, st_output = None\<rparr>"

definition quoteGraph :: "unit MultiAgentGraph" where
  "quoteGraph = registerWorker ''\"'' () (new_MultiAgentGraph None)"

definition stateOfMessages :: "BaseMessage list \<Rightarrow> AgentState" where
  "stateOfMessages msgs =
     \<lparr>st_messages = msgs, st_query = ''q'', st_toolResults = [], st_metadata = [],
      st_iterations = Some 0, st_error = None, st_output = None\<rparr>"

section \<open>Auxiliary lemmas\<close>

lemmas eval_defs =
  new_Agent_def updateConfig_def agent_validateConfig_def testConfig_def name_blank_def
  model_missing_def truthy_string_def truthy_number_def trim_def isWhiteSpace_def
  config_invariant_def agent_invariant_def spread_def spread_prop_def no_changes_def

lemma trim_Nil: "trim [] = []"
  by (simp add: trim_def)

lemma name_blank_iff:
  "name_blank n = (case n of None \<Rightarrow> True | Some x \<Rightarrow> trim x = [])"
  by (auto simp: name_blank_def truthy_string_def trim_Nil split: option.splits)

lemma model_missing_iff:
  "model_missing l =
     (case l of None \<Rightarrow> True
      | Some c \<Rightarrow> (case llm_modelName c of None \<Rightarrow> True | Some m \<Rightarrow> m = []))"
  by (auto simp: model_missing_def truthy_string_def split: option.splits)

lemma validate_ok_invariant:
  "agent_validateConfig c = Inr u \<Longrightarrow> config_invariant c"
  by (auto simp: agent_validateConfig_def config_invariant_def name_blank_iff model_missing_iff
      split: if_splits option.splits)

lemma invariant_broken_throws:
  "\<not> config_invariant c \<Longrightarrow>
     agent_validateConfig c \<in> {Inl (Error ''Agent name cannot be empty''),
        Inl (Error ''Agent type is required''),
        Inl (Error ''LLM configuration with model name is required'')}"
  by (auto simp: agent_validateConfig_def config_invariant_def name_blank_iff model_missing_iff
      split: if_splits option.splits)

lemma validate_iff:
  "(agent_validateConfig c = Inr ()) =
     (config_invariant c
      \<and> (\<forall>x. cfg_maxIterations c = Some x \<longrightarrow> x \<le> 0 \<or> 1 \<le> x)
      \<and> (\<forall>t. cfg_timeoutMs c = Some t \<longrightarrow> 0 \<le> t))"
  by (auto simp: agent_validateConfig_def config_invariant_def name_blank_iff model_missing_iff
       truthy_number_def
      split: if_splits option.splits)

lemmas usecase_defs =
  createAgent_execute_def usecase_validateConfig_def agentRepo_findByName_def
  agentRepo_findById_def agentRepo_save_def map_values_def getName_def getId_def getConfig_def
  isAgentActive_def testAgent_def

lemma map_get_map_set_same: "map_get (map_set m k v) k = Some v"
  by (induction m) auto

lemma findByName_loop_found_iff:
  "(findByName_loop xs n \<noteq> None) = (\<exists>a \<in> set xs. getName a = n)"
  by (induction xs) auto

lemma agentRepo_findByName_found_iff:
  "(agentRepo_findByName agents n \<noteq> None) = (\<exists>a \<in> set (map_values agents). getName a = n)"
  unfolding agentRepo_findByName_def by (rule findByName_loop_found_iff)

lemma usecase_validate_cases:
  "usecase_validateConfig config = Inr () \<or>
   (\<exists>reason. usecase_validateConfig config = Inl (InvalidAgentConfigError reason))"
  by (auto simp: usecase_validateConfig_def split: option.splits)

lemma usecase_validate_ok_iff:
  "(usecase_validateConfig config = Inr u) = (\<exists>c. config = Some c \<and> config_invariant c)"
  by (cases config)
     (auto simp: usecase_validateConfig_def config_invariant_def name_blank_iff truthy_string_def
       split: option.splits)

lemma new_Agent_thrown_is_Error:
  "new_Agent uuid now c i act cr up = Inl e \<Longrightarrow> \<exists>m. e = Error m"
  by (auto simp: new_Agent_def agent_validateConfig_def split: sum.splits if_splits)

lemma createAgent_execute_outcome:
  "(\<exists>reason. createAgent_execute uuid now config agents = (Inl (InvalidAgentConfigError reason), agents))
   \<or> (\<exists>c agent. config = Some c \<and> config_invariant c
         \<and> agentRepo_findByName agents (cfg_name c) = None
         \<and> new_Agent uuid now c None None None None = Inr agent
         \<and> createAgent_execute uuid now config agents = (Inr agent, map_set agents (getId agent) agent))"
proof (cases "usecase_validateConfig config")
  case (Inl e)
  with usecase_validate_cases [of config] show ?thesis
    by (auto simp: createAgent_execute_def)
next
  case (Inr u)
  then obtain c where c: "config = Some c" "config_invariant c"
    by (auto simp: usecase_validate_ok_iff)
  show ?thesis
  proof (cases "agentRepo_findByName agents (cfg_name c)")
    case (Some existing)
    with Inr c show ?thesis by (simp add: createAgent_execute_def)
  next
    case None
    show ?thesis
    proof (cases "new_Agent uuid now c None None None None")
      case (Inl e)
      then obtain m where "e = Error m" by (auto dest: new_Agent_thrown_is_Error)
      with Inl Inr c None show ?thesis by (simp add: createAgent_execute_def)
    next
      case (Inr agent)
      with \<open>usecase_validateConfig config = Inr u\<close> c None show ?thesis
        by (simp add: createAgent_execute_def agentRepo_save_def)
    qed
  qed
qed

lemma map_delete_absent: "\<not> map_has m k \<Longrightarrow> map_delete m k = m"
  by (induction m) (auto simp: map_has_def map_delete_def split: if_splits)

lemma map_get_map_delete: "map_get (map_delete m k) k = None"
  by (induction m) (auto simp: map_delete_def)

lemma take_min_length: "take (min n (length ys)) ys = take n ys"
  by (cases "n \<le> length ys") (simp_all add: min_def)

lemma slice_nonneg:
  assumes "0 \<le> s" and "0 \<le> t"
  shows "slice xs s (s + t) = take (nat t) (drop (nat s) xs)"
proof (cases "s \<le> int (length xs)")
  case True
  with assms have "slice xs s (s + t) =
      take (nat (min (s + t) (int (length xs)) - s)) (drop (nat s) xs)"
    by (simp add: slice_def Let_def min_def)
  also from assms True
  have "nat (min (s + t) (int (length xs)) - s) = min (nat t) (length (drop (nat s) xs))"
    by (simp add: min_def) linarith
  finally show ?thesis by (simp only: take_min_length)
next
  case False
  with assms show ?thesis by (simp add: slice_def Let_def min_def)
qed

lemma map_has_map_set: "map_has (map_set m k v) k"
  by (simp add: map_has_def map_get_map_set_same)

lemma unregister_existing:
  "map_has (reg_tools reg) toolId \<Longrightarrow>
     unregister reg toolId = (True, reg\<lparr>reg_tools := map_delete (reg_tools reg) toolId\<rparr>)"
  by (simp add: unregister_def Let_def map_get_map_delete)

lemma unregister_missing:
  "\<not> map_has (reg_tools reg) toolId \<Longrightarrow> unregister reg toolId = (False, reg)"
  by (simp add: unregister_def Let_def)

lemma startsWith_iff: "startsWith s sub = (\<exists>after. s = sub @ after)"
proof
  assume "startsWith s sub"
  then have "s = sub @ drop (length sub) s"
    by (metis startsWith_def append_take_drop_id)
  then show "\<exists>after. s = sub @ after" ..
next
  assume "\<exists>after. s = sub @ after"
  then show "startsWith s sub" by (auto simp: startsWith_def)
qed

lemma includes_str_iff: "includes_str s sub = occurs_in sub s"
proof (induction s)
  case Nil
  show ?case by (auto simp: occurs_in_def)
next
  case (Cons c cs)
  have "occurs_in sub (c # cs) = (startsWith (c # cs) sub \<or> occurs_in sub cs)"
  proof
    assume "occurs_in sub (c # cs)"
    then obtain b a where eq: "c # cs = b @ sub @ a" by (auto simp: occurs_in_def)
    show "startsWith (c # cs) sub \<or> occurs_in sub cs"
    proof (cases b)
      case Nil
      with eq show ?thesis by (auto simp: startsWith_iff)
    next
      case (Cons x b')
      with eq have "cs = b' @ sub @ a" by simp
      then show ?thesis by (auto simp: occurs_in_def)
    qed
  next
    assume "startsWith (c # cs) sub \<or> occurs_in sub cs"
    then show "occurs_in sub (c # cs)"
    proof
      assume "startsWith (c # cs) sub"
      then obtain a where "c # cs = [] @ sub @ a" by (auto simp: startsWith_iff)
      then show ?thesis unfolding occurs_in_def by blast
    next
      assume "occurs_in sub cs"
      then obtain b a where "cs = b @ sub @ a" by (auto simp: occurs_in_def)
      then have "c # cs = (c # b) @ sub @ a" by simp
      then show ?thesis unfolding occurs_in_def by blast
    qed
  qed
  with Cons show ?case by simp
qed

lemma toLowerCase_quotes: "toLowerCase ''\"\"'' = ''\"\"''"
  by code_simp

lemma route_content_searched_text: "route_content state = toLowerCase (searched_text state)"
proof (cases "st_messages state")
  case Nil
  then show ?thesis by (simp add: route_content_def contentValue_def searched_text_def)
next
  case (Cons m ms)
  then have "route_content state = toLowerCase (content_text (msg_content (last (m # ms))))"
    by (cases "msg_content (last (m # ms))" rule: content_text.cases)
       (simp_all add: route_content_def contentValue_def)
  with Cons show ?thesis by (simp add: searched_text_def)
qed

lemma route_loop_first:
  "\<forall>v \<in> set earlier. \<not> includes_str content (toLowerCase v) \<Longrightarrow>
   includes_str content (toLowerCase w) \<Longrightarrow>
   route_loop content (earlier @ w # later) = w"
  by (induction earlier) auto

lemma route_loop_none:
  "\<forall>v \<in> set names. \<not> includes_str content (toLowerCase v) \<Longrightarrow>
   route_loop content names = ''end''"
  by (induction names) auto

section \<open>Session status transitions\<close>

text \<open>
  C1, as the specification words it: every one of the five operations assigns its status
  whatever the current one is, so \<^verbatim>\<open>complete()\<close> on a failed session would give
  \<^verbatim>\<open>completed\<close>. The source guards three of them: on a failed session
  \<^verbatim>\<open>complete()\<close> changes nothing and the status stays \<^verbatim>\<open>failed\<close>.
\<close>

theorem complete_from_failed_counterexample:
  "getStatus (complete_session 1000
     \<lparr>sessionId = ''s1'', session_agentId = ''a1'', session_createdAt = 0, session_updatedAt = 0,
      session_expiresAt = None, session_status = FAILED, session_metadata = []\<rparr>) = FAILED
   \<and> getStatus (complete_session 1000
     \<lparr>sessionId = ''s1'', session_agentId = ''a1'', session_createdAt = 0, session_updatedAt = 0,
      session_expiresAt = None, session_status = FAILED, session_metadata = []\<rparr>) \<noteq> COMPLETED"
  by (simp add: complete_session_def getStatus_def)

text \<open>
  C1, amended: \<^verbatim>\<open>fail()\<close> and \<^verbatim>\<open>interrupt()\<close> assign their status from every status.
  \<^verbatim>\<open>pause()\<close> assigns \<^verbatim>\<open>paused\<close> only from \<^verbatim>\<open>active\<close>, \<^verbatim>\<open>resume()\<close> assigns
  \<^verbatim>\<open>active\<close> only from \<^verbatim>\<open>paused\<close>, \<^verbatim>\<open>complete()\<close> assigns \<^verbatim>\<open>completed\<close> only from
  \<^verbatim>\<open>active\<close> or \<^verbatim>\<open>paused\<close>; from any other status these three return the session
  as it was. No operation raises.
\<close>

theorem session_status_transitions:
  "getStatus (fail now r s) = FAILED
   \<and> getStatus (interrupt now r s) = INTERRUPTED
   \<and> pause now s = (if getStatus s = ACTIVE then s\<lparr>session_status := PAUSED, session_updatedAt := now\<rparr> else s)
   \<and> resume now s = (if getStatus s = PAUSED then s\<lparr>session_status := ACTIVE, session_updatedAt := now\<rparr> else s)
   \<and> complete_session now s =
       (if getStatus s \<in> {ACTIVE, PAUSED} then s\<lparr>session_status := COMPLETED, session_updatedAt := now\<rparr> else s)
   \<and> getStatus (pause now s) = (if getStatus s = ACTIVE then PAUSED else getStatus s)
   \<and> getStatus (resume now s) = (if getStatus s = PAUSED then ACTIVE else getStatus s)
   \<and> getStatus (complete_session now s) =
       (if getStatus s \<in> {ACTIVE, PAUSED} then COMPLETED else getStatus s)"
  by (simp add: fail_def interrupt_def pause_def resume_def complete_session_def getStatus_def Let_def)

section \<open>The invariant of the Agent entity\<close>

text \<open>
  C7: an agent that the constructor returns, and an agent that \<^verbatim>\<open>updateConfig\<close>
  returns, has a name that is non-empty after trimming, a type and a non-empty model
  name; on a configuration (for \<^verbatim>\<open>updateConfig\<close>: a merged configuration) without
  one of them, the constructor and \<^verbatim>\<open>updateConfig\<close> throw an \<^verbatim>\<open>Error\<close> and return no
  agent.
\<close>

theorem agent_invariant_preserved:
  "(new_Agent uuid now config ident isActive createdAt updatedAt = Inr a \<longrightarrow> agent_invariant a)
   \<and> (updateConfig now' newConfig b = Inr b' \<longrightarrow> agent_invariant b')
   \<and> (\<not> config_invariant config \<longrightarrow>
        (\<exists>m. new_Agent uuid now config ident isActive createdAt updatedAt = Inl (Error m)))
   \<and> (\<not> config_invariant (spread (agent_config b) newConfig) \<longrightarrow>
        (\<exists>m. updateConfig now' newConfig b = Inl (Error m)))"
proof (intro conjI impI)
  assume "new_Agent uuid now config ident isActive createdAt updatedAt = Inr a"
  then obtain u where "agent_validateConfig config = Inr u" and "agent_config a = config"
    by (auto simp: new_Agent_def split: sum.splits)
  then show "agent_invariant a"
    by (simp add: agent_invariant_def validate_ok_invariant)
next
  assume "updateConfig now' newConfig b = Inr b'"
  then obtain u where "agent_validateConfig (spread (agent_config b) newConfig) = Inr u"
    and "agent_config b' = spread (agent_config b) newConfig"
    by (auto simp: updateConfig_def Let_def split: sum.splits)
  then show "agent_invariant b'"
    by (simp add: agent_invariant_def validate_ok_invariant)
next
  assume "\<not> config_invariant config"
  from invariant_broken_throws [OF this]
  show "\<exists>m. new_Agent uuid now config ident isActive createdAt updatedAt = Inl (Error m)"
    by (auto simp: new_Agent_def)
next
  assume "\<not> config_invariant (spread (agent_config b) newConfig)"
  from invariant_broken_throws [OF this]
  show "\<exists>m. updateConfig now' newConfig b = Inl (Error m)"
    by (auto simp: updateConfig_def Let_def)
qed

theorem agent_invariant_preserved_witness:
  "new_Agent ''uuid-1'' 7 testConfig (Some ''test-id'') None None None =
     Inr \<lparr>agent_id = ''test-id'', agent_createdAt = 7, agent_updatedAt = 7,
          agent_config = testConfig, agent_isActive = True\<rparr>
   \<and> agent_invariant \<lparr>agent_id = ''test-id'', agent_createdAt = 7, agent_updatedAt = 7,
          agent_config = testConfig, agent_isActive = True\<rparr>
   \<and> updateConfig 9 (no_changes\<lparr>part_maxIterations := Some (Some 20)\<rparr>)
        \<lparr>agent_id = ''test-id'', agent_createdAt = 7, agent_updatedAt = 7,
         agent_config = testConfig, agent_isActive = True\<rparr> =
     Inr \<lparr>agent_id = ''test-id'', agent_createdAt = 7, agent_updatedAt = 9,
          agent_config = testConfig\<lparr>cfg_maxIterations := Some 20\<rparr>, agent_isActive = True\<rparr>
   \<and> agent_invariant \<lparr>agent_id = ''test-id'', agent_createdAt = 7, agent_updatedAt = 9,
          agent_config = testConfig\<lparr>cfg_maxIterations := Some 20\<rparr>, agent_isActive = True\<rparr>
   \<and> \<not> config_invariant (testConfig\<lparr>cfg_name := Some '' ''\<rparr>)
   \<and> (\<exists>m. new_Agent ''uuid-1'' 7 (testConfig\<lparr>cfg_name := Some '' ''\<rparr>) (Some ''test-id'') None None None
          = Inl (Error m))
   \<and> \<not> config_invariant (spread testConfig (no_changes\<lparr>part_name := Some (Some [])\<rparr>))
   \<and> (\<exists>m. updateConfig 9 (no_changes\<lparr>part_name := Some (Some [])\<rparr>)
          \<lparr>agent_id = ''test-id'', agent_createdAt = 7, agent_updatedAt = 7,
           agent_config = testConfig, agent_isActive = True\<rparr> = Inl (Error m))"
  using agent_invariant_preserved [of "''uuid-1''" 7 testConfig "Some ''test-id''" None None None
      "\<lparr>agent_id = ''test-id'', agent_createdAt = 7, agent_updatedAt = 7,
          agent_config = testConfig, agent_isActive = True\<rparr>"
      9 "no_changes\<lparr>part_maxIterations := Some (Some 20)\<rparr>"
      "\<lparr>agent_id = ''test-id'', agent_createdAt = 7, agent_updatedAt = 7,
          agent_config = testConfig, agent_isActive = True\<rparr>"
      "\<lparr>agent_id = ''test-id'', agent_createdAt = 7, agent_updatedAt = 9,
          agent_config = testConfig\<lparr>cfg_maxIterations := Some 20\<rparr>, agent_isActive = True\<rparr>"]
    agent_invariant_preserved [of "''uuid-1''" 7 "testConfig\<lparr>cfg_name := Some '' ''\<rparr>"
      "Some ''test-id''" None None None undefined 9 "no_changes\<lparr>part_name := Some (Some [])\<rparr>"
      "\<lparr>agent_id = ''test-id'', agent_createdAt = 7, agent_updatedAt = 7,
          agent_config = testConfig, agent_isActive = True\<rparr>" undefined]
  by (simp add: eval_defs)

section \<open>The iteration and timeout checks of the Agent entity\<close>

text \<open>
  C10, as the specification words it: the check on \<^verbatim>\<open>maxIterations\<close> can never fire, so
  a configuration with a valid name, type and model name always gives an agent. The
  check fires at 0.5, a number between 0 and 1; and with \<^verbatim>\<open>maxIterations\<close> at -3 the
  check on \<^verbatim>\<open>timeoutMs\<close> still rejects a negative timeout.
\<close>

theorem max_iterations_guard_counterexample:
  "config_invariant (testConfig\<lparr>cfg_maxIterations := Some (1/2)\<rparr>)
   \<and> new_Agent ''uuid-1'' 7 (testConfig\<lparr>cfg_maxIterations := Some (1/2)\<rparr>) None None None None
       = Inl (Error ''Max iterations must be greater than 0'')
   \<and> config_invariant (testConfig\<lparr>cfg_maxIterations := Some (-3), cfg_timeoutMs := Some (-1)\<rparr>)
   \<and> new_Agent ''uuid-1'' 7 (testConfig\<lparr>cfg_maxIterations := Some (-3), cfg_timeoutMs := Some (-1)\<rparr>)
         None None None None
       = Inl (Error ''Timeout must be greater than 0'')"
  by (simp add: eval_defs)

text \<open>
  C10, amended: on a configuration with a valid name, type and model name the
  constructor returns an agent exactly when \<^verbatim>\<open>maxIterations\<close> is absent or not strictly
  between 0 and 1, and \<^verbatim>\<open>timeoutMs\<close> is absent or not negative. The check on
  \<^verbatim>\<open>maxIterations\<close> therefore never fires on an integer, zero and the negative ones
  included; strictly between 0 and 1 it throws
  \<^verbatim>\<open>Max iterations must be greater than 0\<close>.
\<close>

theorem agent_construction_succeeds_iff:
  "((\<exists>a. new_Agent uuid now config ident isActive createdAt updatedAt = Inr a) =
      (config_invariant config
       \<and> (\<forall>x. cfg_maxIterations config = Some x \<longrightarrow> x \<le> 0 \<or> 1 \<le> x)
       \<and> (\<forall>t. cfg_timeoutMs config = Some t \<longrightarrow> 0 \<le> t)))
   \<and> (config_invariant config \<and> cfg_maxIterations config = Some (of_int k)
        \<and> (\<forall>t. cfg_timeoutMs config = Some t \<longrightarrow> 0 \<le> t) \<longrightarrow>
        (\<exists>a. new_Agent uuid now config ident isActive createdAt updatedAt = Inr a))
   \<and> (config_invariant config \<and> cfg_maxIterations config = Some x \<and> 0 < x \<and> x < 1 \<longrightarrow>
        new_Agent uuid now config ident isActive createdAt updatedAt
          = Inl (Error ''Max iterations must be greater than 0''))"
proof -
  have eq: "(\<exists>a. new_Agent uuid now config ident isActive createdAt updatedAt = Inr a) =
      (agent_validateConfig config = Inr ())"
    by (auto simp: new_Agent_def split: sum.splits)
  have int_ok: "(of_int k :: rat) \<le> 0 \<or> 1 \<le> (of_int k :: rat)"
  proof (cases "k \<le> 0")
    case True
    then show ?thesis by simp
  next
    case False
    then have "1 \<le> k" by simp
    then have "(of_int 1 :: rat) \<le> of_int k" by (simp only: of_int_le_iff)
    then show ?thesis by simp
  qed
  have a: "(\<exists>a. new_Agent uuid now config ident isActive createdAt updatedAt = Inr a) =
      (config_invariant config
       \<and> (\<forall>x. cfg_maxIterations config = Some x \<longrightarrow> x \<le> 0 \<or> 1 \<le> x)
       \<and> (\<forall>t. cfg_timeoutMs config = Some t \<longrightarrow> 0 \<le> t))"
    by (simp only: eq validate_iff)
  have b: "config_invariant config \<and> cfg_maxIterations config = Some (of_int k)
        \<and> (\<forall>t. cfg_timeoutMs config = Some t \<longrightarrow> 0 \<le> t) \<longrightarrow>
        (\<exists>a. new_Agent uuid now config ident isActive createdAt updatedAt = Inr a)"
    using int_ok by (auto simp only: a)
  have c: "config_invariant config \<and> cfg_maxIterations config = Some x \<and> 0 < x \<and> x < 1 \<longrightarrow>
        new_Agent uuid now config ident isActive createdAt updatedAt
          = Inl (Error ''Max iterations must be greater than 0'')"
    by (auto simp: new_Agent_def agent_validateConfig_def config_invariant_def name_blank_iff
        model_missing_iff truthy_number_def split: option.splits)
  from a b c show ?thesis by blast
qed

theorem agent_construction_succeeds_iff_witness:
  "(\<exists>a. new_Agent ''uuid-1'' 7 (testConfig\<lparr>cfg_maxIterations := Some 0\<rparr>) None None None None = Inr a)
   \<and> (\<exists>a. new_Agent ''uuid-1'' 7 (testConfig\<lparr>cfg_maxIterations := Some (-3)\<rparr>) None None None None = Inr a)
   \<and> config_invariant (testConfig\<lparr>cfg_maxIterations := Some (1/2)\<rparr>)
   \<and> new_Agent ''uuid-1'' 7 (testConfig\<lparr>cfg_maxIterations := Some (1/2)\<rparr>) None None None None
        = Inl (Error ''Max iterations must be greater than 0'')"
  using agent_construction_succeeds_iff [of "''uuid-1''" 7 "testConfig\<lparr>cfg_maxIterations := Some 0\<rparr>"
       None None None None 0 "1/2"]
    agent_construction_succeeds_iff [of "''uuid-1''" 7 "testConfig\<lparr>cfg_maxIterations := Some (-3)\<rparr>"
       None None None None "-3" "1/2"]
    agent_construction_succeeds_iff [of "''uuid-1''" 7 "testConfig\<lparr>cfg_maxIterations := Some (1/2)\<rparr>"
       None None None None 0 "1/2"]
  by (simp add: eval_defs)

section \<open>Creating an agent\<close>

text \<open>
  C3: \<^verbatim>\<open>CreateAgentUseCase.execute\<close> throws \<^verbatim>\<open>InvalidAgentConfigError\<close> when the
  configuration is no object, when its name is missing or blank, its type missing, its
  LLM configuration or the model name of it missing, and when some agent stored in the
  repository, at whatever position, has that name. Whenever \<^verbatim>\<open>execute\<close> throws, the
  Map of the repository is the one it started with.
\<close>

theorem createAgent_rejects_unchanged:
  "(\<exists>reason. createAgent_execute uuid now None agents
       = (Inl (InvalidAgentConfigError reason), agents))
   \<and> (\<not> config_invariant c \<or> (\<exists>a \<in> set (map_values agents). getName a = cfg_name c) \<longrightarrow>
       (\<exists>reason. createAgent_execute uuid now (Some c) agents
          = (Inl (InvalidAgentConfigError reason), agents)))
   \<and> (\<forall>e. fst (createAgent_execute uuid now config agents) = Inl e \<longrightarrow>
          snd (createAgent_execute uuid now config agents) = agents)"
proof -
  have not_object: "\<exists>reason. createAgent_execute uuid now None agents
       = (Inl (InvalidAgentConfigError reason), agents)"
    by (simp add: createAgent_execute_def usecase_validateConfig_def)
  have rejected: "\<exists>reason. createAgent_execute uuid now (Some c) agents
          = (Inl (InvalidAgentConfigError reason), agents)"
    if "\<not> config_invariant c \<or> (\<exists>a \<in> set (map_values agents). getName a = cfg_name c)"
  proof -
    from that have "\<not> config_invariant c \<or> agentRepo_findByName agents (cfg_name c) \<noteq> None"
      by (simp only: agentRepo_findByName_found_iff)
    with createAgent_execute_outcome [of uuid now "Some c" agents] show ?thesis by auto
  qed
  have frame: "snd (createAgent_execute uuid now config agents) = agents"
    if "fst (createAgent_execute uuid now config agents) = Inl e" for e
    using that createAgent_execute_outcome [of uuid now config agents] by auto
  from not_object rejected frame show ?thesis by blast
qed

theorem createAgent_rejects_unchanged_witness:
  "\<not> config_invariant (testConfig\<lparr>cfg_name := Some []\<rparr>)
   \<and> createAgent_execute ''uuid-2'' 8 (Some (testConfig\<lparr>cfg_name := Some []\<rparr>))
         [(''test-id'', testAgent)]
       = (Inl (InvalidAgentConfigError ''Agent name is required''), [(''test-id'', testAgent)])
   \<and> testAgent \<in> set (map_values [(''other-id'', otherAgent), (''test-id'', testAgent)])
   \<and> getName testAgent = cfg_name testConfig
   \<and> getName otherAgent \<noteq> cfg_name testConfig
   \<and> createAgent_execute ''uuid-2'' 8 (Some testConfig)
         [(''other-id'', otherAgent), (''test-id'', testAgent)]
       = (Inl (InvalidAgentConfigError ''Agent with name \"Test Agent\" already exists''),
          [(''other-id'', otherAgent), (''test-id'', testAgent)])"
  using createAgent_rejects_unchanged [of "''uuid-2''" 8 "[(''test-id'', testAgent)]"
      "testConfig\<lparr>cfg_name := Some []\<rparr>" "Some (testConfig\<lparr>cfg_name := Some []\<rparr>)"]
    createAgent_rejects_unchanged [of "''uuid-2''" 8
      "[(''other-id'', otherAgent), (''test-id'', testAgent)]" "testConfig" "Some testConfig"]
  by (simp add: usecase_defs eval_defs otherAgent_def)

text \<open>
  C8: when \<^verbatim>\<open>execute\<close> returns an agent, \<^verbatim>\<open>findById\<close> on the id of that agent
  returns the agent itself, which carries the configuration passed in and is active;
  and \<^verbatim>\<open>execute\<close> does return an agent on every configuration that the entity accepts
  and whose name is not stored yet.
\<close>

theorem create_then_read:
  "(createAgent_execute uuid now config agents = (Inr agent, agents') \<longrightarrow>
      agentRepo_findById agents' (getId agent) = Some agent
      \<and> getId agent = uuid \<and> Some (getConfig agent) = config \<and> isAgentActive agent)
   \<and> (agent_validateConfig c = Inr () \<and> agentRepo_findByName agents (cfg_name c) = None \<longrightarrow>
      (\<exists>agent agents'. createAgent_execute uuid now (Some c) agents = (Inr agent, agents')))"
proof -
  have read: "agentRepo_findById agents' (getId agent) = Some agent
      \<and> getId agent = uuid \<and> Some (getConfig agent) = config \<and> isAgentActive agent"
    if ok: "createAgent_execute uuid now config agents = (Inr agent, agents')"
  proof -
    from ok createAgent_execute_outcome [of uuid now config agents]
    obtain c where c: "config = Some c" "new_Agent uuid now c None None None None = Inr agent"
      "agents' = map_set agents (getId agent) agent"
      by auto
    from c(2) have "agent_id agent = uuid" "agent_config agent = c" "agent_isActive agent"
      by (auto simp: new_Agent_def split: sum.splits)
    with c show ?thesis
      by (simp add: agentRepo_findById_def map_get_map_set_same getId_def getConfig_def
          isAgentActive_def)
  qed
  have returns: "\<exists>agent agents'. createAgent_execute uuid now (Some c) agents = (Inr agent, agents')"
    if a: "agent_validateConfig c = Inr () \<and> agentRepo_findByName agents (cfg_name c) = None"
  proof -
    from a have "config_invariant c" by (simp add: validate_ok_invariant)
    then have "usecase_validateConfig (Some c) = Inr ()"
      by (simp add: usecase_validate_ok_iff)
    with a show ?thesis
      by (simp add: createAgent_execute_def new_Agent_def agentRepo_save_def)
  qed
  from read returns show ?thesis by blast
qed

theorem create_then_read_witness:
  "agent_validateConfig testConfig = Inr ()
   \<and> agentRepo_findByName [] (cfg_name testConfig) = None
   \<and> createAgent_execute ''test-id'' 7 (Some testConfig) [] = (Inr testAgent, [(''test-id'', testAgent)])
   \<and> agentRepo_findById [(''test-id'', testAgent)] (getId testAgent) = Some testAgent
   \<and> getConfig testAgent = testConfig \<and> isAgentActive testAgent"
  using create_then_read [of "''test-id''" 7 "Some testConfig" "[]" testAgent
      "[(''test-id'', testAgent)]" testConfig]
  by (simp add: usecase_defs eval_defs)

section \<open>Deleting from the repositories\<close>

text \<open>
  C9: \<^verbatim>\<open>delete\<close> on an identifier that is not in the Map resolves and leaves the Map
  as it is, in the agent repository and in the session repository. (In every case the
  identifier is not in the Map afterwards.)
\<close>

theorem delete_absent_noop:
  "(\<not> agentRepo_exists agents agentId \<longrightarrow> agentRepo_delete agents agentId = (Inr (), agents))
   \<and> (\<not> sessionRepo_exists sessions sid \<longrightarrow> sessionRepo_delete sessions sid = (Inr (), sessions))
   \<and> agentRepo_findById (snd (agentRepo_delete agents agentId)) agentId = None
   \<and> sessionRepo_findById (snd (sessionRepo_delete sessions sid)) sid = None"
  by (simp add: agentRepo_exists_def agentRepo_delete_def sessionRepo_exists_def
      sessionRepo_delete_def map_delete_absent agentRepo_findById_def sessionRepo_findById_def
      map_get_map_delete)

theorem delete_absent_noop_witness:
  "\<not> agentRepo_exists [(''test-id'', testAgent)] ''non-existent''
   \<and> agentRepo_delete [(''test-id'', testAgent)] ''non-existent''
        = (Inr (), [(''test-id'', testAgent)])
   \<and> \<not> sessionRepo_exists [(''s1'', testSession)] ''s2''
   \<and> sessionRepo_delete [(''s1'', testSession)] ''s2'' = (Inr (), [(''s1'', testSession)])"
  using delete_absent_noop [of "[(''test-id'', testAgent)]" "''non-existent''"
      "[(''s1'', testSession)]" "''s2''"]
  by (simp add: agentRepo_exists_def sessionRepo_exists_def map_has_def)

section \<open>Pagination\<close>

text \<open>
  C4, as the specification words it: the defaults replace absent values only, so a
  cursor with take 0 would give an empty page reporting take 0. The source writes
  \<^verbatim>\<open>cursor?.take || 10\<close>, which replaces 0 as well: on one stored agent and the cursor
  \<^verbatim>\<open>{ skip: 0, take: 0 }\<close>, \<^verbatim>\<open>findAll\<close> returns that agent and reports take 10.
\<close>

theorem take_zero_counterexample:
  "agentRepo_findAll [(''test-id'', testAgent)]
      (Some \<lparr>cursor_skip = Some 0, cursor_take = Some 0, cursor_orderBy = None, cursor_order = None\<rparr>)
     = \<lparr>page_data = [testAgent], page_total = 1, page_skip = 0, page_take = 10\<rparr>
   \<and> claimed_page [testAgent]
      (Some \<lparr>cursor_skip = Some 0, cursor_take = Some 0, cursor_orderBy = None, cursor_order = None\<rparr>)
     = \<lparr>page_data = [], page_total = 1, page_skip = 0, page_take = 0\<rparr>
   \<and> agentRepo_findAll [(''test-id'', testAgent)]
      (Some \<lparr>cursor_skip = Some 0, cursor_take = Some 0, cursor_orderBy = None, cursor_order = None\<rparr>)
     \<noteq> claimed_page (map_values [(''test-id'', testAgent)])
      (Some \<lparr>cursor_skip = Some 0, cursor_take = Some 0, cursor_orderBy = None, cursor_order = None\<rparr>)"
  by (simp add: agentRepo_findAll_def paginate_def claimed_page_def absent_default_def
      or_default_def opt_skip_def opt_take_def slice_def map_values_def Let_def)

text \<open>
  C4, amended: \<^verbatim>\<open>findAll\<close> and \<^verbatim>\<open>findByAgentId\<close> return
  \<^verbatim>\<open>slice(skip, skip + take)\<close> of the stored (agent-matching) items, which for a skip
  and a take that are not negative are the items from index skip up to skip + take;
  skip is 0 when the cursor or its skip is absent, take is 10 when the cursor or its take
  is absent or when take is 0; the total is the number of all stored (matching) items,
  and the skip and take reported are the ones so used.
\<close>

theorem pagination_slices:
  "agentRepo_findAll agents cursor =
     \<lparr>page_data = slice (map_values agents) (or_default (opt_skip cursor) 0)
                    (or_default (opt_skip cursor) 0 + or_default (opt_take cursor) 10),
      page_total = agentRepo_count agents,
      page_skip = or_default (opt_skip cursor) 0,
      page_take = or_default (opt_take cursor) 10\<rparr>
   \<and> sessionRepo_findByAgentId sessions agentId cursor =
     \<lparr>page_data = slice (filter (\<lambda>s. getAgentId s = agentId) (map_values sessions))
                    (or_default (opt_skip cursor) 0)
                    (or_default (opt_skip cursor) 0 + or_default (opt_take cursor) 10),
      page_total = length (filter (\<lambda>s. getAgentId s = agentId) (map_values sessions)),
      page_skip = or_default (opt_skip cursor) 0,
      page_take = or_default (opt_take cursor) 10\<rparr>
   \<and> (0 \<le> or_default (opt_skip cursor) 0 \<and> 0 \<le> or_default (opt_take cursor) 10 \<longrightarrow>
        page_data (agentRepo_findAll agents cursor) =
          take (nat (or_default (opt_take cursor) 10))
            (drop (nat (or_default (opt_skip cursor) 0)) (map_values agents))
        \<and> page_data (sessionRepo_findByAgentId sessions agentId cursor) =
          take (nat (or_default (opt_take cursor) 10))
            (drop (nat (or_default (opt_skip cursor) 0))
               (filter (\<lambda>s. getAgentId s = agentId) (map_values sessions))))
   \<and> or_default (opt_skip None) 0 = 0 \<and> or_default (opt_take None) 10 = 10
   \<and> or_default (opt_skip (Some c)) 0 = (case cursor_skip c of None \<Rightarrow> 0 | Some n \<Rightarrow> n)
   \<and> or_default (opt_take (Some c)) 10 =
        (case cursor_take c of None \<Rightarrow> 10 | Some n \<Rightarrow> if n = 0 then 10 else n)"
proof -
  have a: "agentRepo_findAll agents cursor =
     \<lparr>page_data = slice (map_values agents) (or_default (opt_skip cursor) 0)
                    (or_default (opt_skip cursor) 0 + or_default (opt_take cursor) 10),
      page_total = agentRepo_count agents,
      page_skip = or_default (opt_skip cursor) 0,
      page_take = or_default (opt_take cursor) 10\<rparr>"
    by (simp add: agentRepo_findAll_def paginate_def Let_def agentRepo_count_def map_size_def
        map_values_def)
  have b: "sessionRepo_findByAgentId sessions agentId cursor =
     \<lparr>page_data = slice (filter (\<lambda>s. getAgentId s = agentId) (map_values sessions))
                    (or_default (opt_skip cursor) 0)
                    (or_default (opt_skip cursor) 0 + or_default (opt_take cursor) 10),
      page_total = length (filter (\<lambda>s. getAgentId s = agentId) (map_values sessions)),
      page_skip = or_default (opt_skip cursor) 0,
      page_take = or_default (opt_take cursor) 10\<rparr>"
    by (simp add: sessionRepo_findByAgentId_def paginate_def Let_def)
  have c: "page_data (agentRepo_findAll agents cursor) =
          take (nat (or_default (opt_take cursor) 10))
            (drop (nat (or_default (opt_skip cursor) 0)) (map_values agents))
        \<and> page_data (sessionRepo_findByAgentId sessions agentId cursor) =
          take (nat (or_default (opt_take cursor) 10))
            (drop (nat (or_default (opt_skip cursor) 0))
               (filter (\<lambda>s. getAgentId s = agentId) (map_values sessions)))"
    if "0 \<le> or_default (opt_skip cursor) 0 \<and> 0 \<le> or_default (opt_take cursor) 10"
    using that by (simp add: a b slice_nonneg)
  have d: "or_default (opt_skip None) 0 = 0 \<and> or_default (opt_take None) 10 = 10
   \<and> or_default (opt_skip (Some c)) 0 = (case cursor_skip c of None \<Rightarrow> 0 | Some n \<Rightarrow> n)
   \<and> or_default (opt_take (Some c)) 10 =
        (case cursor_take c of None \<Rightarrow> 10 | Some n \<Rightarrow> if n = 0 then 10 else n)"
    by (simp add: or_default_def opt_skip_def opt_take_def split: option.splits)
  from a b c d show ?thesis by blast
qed

theorem pagination_slices_witness:
  "0 \<le> or_default (opt_skip (Some \<lparr>cursor_skip = Some 1, cursor_take = Some 1,
                                      cursor_orderBy = None, cursor_order = None\<rparr>)) 0
   \<and> 0 \<le> or_default (opt_take (Some \<lparr>cursor_skip = Some 1, cursor_take = Some 1,
                                      cursor_orderBy = None, cursor_order = None\<rparr>)) 10
   \<and> agentRepo_findAll
        [(''test-id'', testAgent), (''test-id-2'', testAgent\<lparr>agent_id := ''test-id-2''\<rparr>),
         (''test-id-3'', testAgent\<lparr>agent_id := ''test-id-3''\<rparr>)]
        (Some \<lparr>cursor_skip = Some 1, cursor_take = Some 1, cursor_orderBy = None, cursor_order = None\<rparr>)
      = \<lparr>page_data = [testAgent\<lparr>agent_id := ''test-id-2''\<rparr>], page_total = 3,
         page_skip = 1, page_take = 1\<rparr>
   \<and> sessionRepo_findByAgentId
        [(''s1'', testSession), (''s2'', testSession\<lparr>sessionId := ''s2'', session_agentId := ''other''\<rparr>),
         (''s3'', testSession\<lparr>sessionId := ''s3''\<rparr>)] ''test-id''
        (Some \<lparr>cursor_skip = Some 1, cursor_take = Some 1, cursor_orderBy = None, cursor_order = None\<rparr>)
      = \<lparr>page_data = [testSession\<lparr>sessionId := ''s3''\<rparr>], page_total = 2,
         page_skip = 1, page_take = 1\<rparr>
   \<and> page_data (agentRepo_findAll
        [(''test-id'', testAgent), (''test-id-2'', testAgent\<lparr>agent_id := ''test-id-2''\<rparr>),
         (''test-id-3'', testAgent\<lparr>agent_id := ''test-id-3''\<rparr>)] None)
      = [testAgent, testAgent\<lparr>agent_id := ''test-id-2''\<rparr>, testAgent\<lparr>agent_id := ''test-id-3''\<rparr>]"
  using pagination_slices [of
        "[(''test-id'', testAgent), (''test-id-2'', testAgent\<lparr>agent_id := ''test-id-2''\<rparr>),
         (''test-id-3'', testAgent\<lparr>agent_id := ''test-id-3''\<rparr>)]"
        "Some \<lparr>cursor_skip = Some 1, cursor_take = Some 1, cursor_orderBy = None, cursor_order = None\<rparr>"
        "[(''s1'', testSession), (''s2'', testSession\<lparr>sessionId := ''s2'', session_agentId := ''other''\<rparr>),
         (''s3'', testSession\<lparr>sessionId := ''s3''\<rparr>)]" "''test-id''"
        "\<lparr>cursor_skip = Some 1, cursor_take = Some 1, cursor_orderBy = None, cursor_order = None\<rparr>"]
    pagination_slices [of
        "[(''test-id'', testAgent), (''test-id-2'', testAgent\<lparr>agent_id := ''test-id-2''\<rparr>),
         (''test-id-3'', testAgent\<lparr>agent_id := ''test-id-3''\<rparr>)]"
        None "[]" "''test-id''"
        "\<lparr>cursor_skip = Some 1, cursor_take = Some 1, cursor_orderBy = None, cursor_order = None\<rparr>"]
  by (simp add: or_default_def opt_skip_def opt_take_def map_values_def agentRepo_count_def
      map_size_def getAgentId_def testSession_def slice_def Let_def)

section \<open>The tool registry\<close>

text \<open>
  C2: \<^verbatim>\<open>unregister(toolDef.id)\<close> after \<^verbatim>\<open>register(toolDef)\<close> returns true and removes
  the definition from the Map, and the list of LLM tools stays as \<^verbatim>\<open>register\<close> left it,
  so it still holds a tool named \<^verbatim>\<open>toolDef.name\<close>. The same holds of \<^verbatim>\<open>unregister\<close> in
  any registry that has the identifier; in one that has not, it returns false and
  changes nothing.
\<close>

theorem unregister_keeps_llm_tool:
  "fst (unregister (register stringify toolDef reg) (tool_id toolDef)) = True
   \<and> getTool (snd (unregister (register stringify toolDef reg) (tool_id toolDef))) (tool_id toolDef)
       = None
   \<and> \<not> toolExists (snd (unregister (register stringify toolDef reg) (tool_id toolDef)))
          (tool_id toolDef)
   \<and> getToolsAsLLMTools (snd (unregister (register stringify toolDef reg) (tool_id toolDef)))
       = getToolsAsLLMTools (register stringify toolDef reg)
   \<and> getToolsAsLLMTools (register stringify toolDef reg)
       = getToolsAsLLMTools reg @ [make_llmTool stringify toolDef]
   \<and> tool_name toolDef
       \<in> set (map llmtool_name
            (getToolsAsLLMTools (snd (unregister (register stringify toolDef reg) (tool_id toolDef)))))
   \<and> (toolExists r toolId \<longrightarrow>
        fst (unregister r toolId) = True
        \<and> getTool (snd (unregister r toolId)) toolId = None
        \<and> getToolsAsLLMTools (snd (unregister r toolId)) = getToolsAsLLMTools r)
   \<and> (\<not> toolExists r toolId \<longrightarrow> unregister r toolId = (False, r))"
proof -
  let ?reg = "register stringify toolDef reg"
  have has: "map_has (reg_tools ?reg) (tool_id toolDef)"
    by (simp add: register_def map_has_map_set)
  note u = unregister_existing [OF has]
  have llm: "getToolsAsLLMTools ?reg = getToolsAsLLMTools reg @ [make_llmTool stringify toolDef]"
    by (simp add: register_def getToolsAsLLMTools_def)
  have name: "llmtool_name (make_llmTool stringify toolDef) = tool_name toolDef"
    by (simp add: make_llmTool_def)
  have kept: "getToolsAsLLMTools (snd (unregister ?reg (tool_id toolDef))) = getToolsAsLLMTools ?reg"
    by (simp add: u getToolsAsLLMTools_def)
  have gone: "getTool (snd (unregister ?reg (tool_id toolDef))) (tool_id toolDef) = None"
    by (simp add: u getTool_def map_get_map_delete)
  have a: "fst (unregister ?reg (tool_id toolDef)) = True"
    by (simp add: u)
  have b: "\<not> toolExists (snd (unregister ?reg (tool_id toolDef))) (tool_id toolDef)"
    by (simp add: u toolExists_def map_has_def map_get_map_delete)
  have c: "tool_name toolDef
       \<in> set (map llmtool_name (getToolsAsLLMTools (snd (unregister ?reg (tool_id toolDef)))))"
    by (simp add: kept llm name)
  have d: "fst (unregister r toolId) = True
        \<and> getTool (snd (unregister r toolId)) toolId = None
        \<and> getToolsAsLLMTools (snd (unregister r toolId)) = getToolsAsLLMTools r"
    if "toolExists r toolId"
    using that
    by (simp add: toolExists_def unregister_existing getTool_def map_get_map_delete
        getToolsAsLLMTools_def)
  have e: "unregister r toolId = (False, r)" if "\<not> toolExists r toolId"
    using that by (simp add: toolExists_def unregister_missing)
  from a gone b kept llm c d e show ?thesis by blast
qed

theorem unregister_keeps_llm_tool_witness:
  "toolExists (register id echoTool new_ToolRegistryService) ''tool-1''
   \<and> unregister (register id echoTool new_ToolRegistryService) ''tool-1''
       = (True, \<lparr>reg_tools = [], reg_llmTools = [make_llmTool id echoTool]\<rparr>)
   \<and> map llmtool_name (getToolsAsLLMTools
         (snd (unregister (register id echoTool new_ToolRegistryService) ''tool-1''))) = [''echo'']
   \<and> \<not> toolExists (new_ToolRegistryService :: string ToolRegistryService) ''tool-1''
   \<and> unregister (new_ToolRegistryService :: string ToolRegistryService) ''tool-1''
       = (False, new_ToolRegistryService)"
  using unregister_keeps_llm_tool [of id echoTool new_ToolRegistryService
      "register id echoTool new_ToolRegistryService" "''tool-1''"]
    unregister_keeps_llm_tool [of id echoTool new_ToolRegistryService
      "new_ToolRegistryService" "''tool-1''"]
  by (simp add: register_def new_ToolRegistryService_def echoTool_def toolExists_def map_has_def
      unregister_def map_delete_def make_llmTool_def getToolsAsLLMTools_def Let_def)

text \<open>
  C5: \<^verbatim>\<open>execute(toolId, input)\<close> returns what the stored \<^verbatim>\<open>execute\<close> returns, and it
  throws in exactly two cases, no tool under the identifier and a throw of the stored
  function; what it throws is a \<^verbatim>\<open>ToolExecutionError\<close> in both.
\<close>

theorem registry_execute_outcomes:
  "(getTool reg toolId = Some toolDef \<and> tool_execute toolDef input = Inr result \<longrightarrow>
      registry_execute reg toolId input = Inr result)
   \<and> (getTool reg toolId = None \<longrightarrow>
      registry_execute reg toolId input = Inl (ToolExecutionError toolId ''Tool not found''))
   \<and> (getTool reg toolId = Some toolDef \<and> tool_execute toolDef input = Inl err \<longrightarrow>
      registry_execute reg toolId input
        = Inl (ToolExecutionError (tool_name toolDef) (error_text err)))
   \<and> ((\<exists>e. registry_execute reg toolId input = Inl e) =
      (getTool reg toolId = None
       \<or> (\<exists>d e. getTool reg toolId = Some d \<and> tool_execute d input = Inl e)))
   \<and> (registry_execute reg toolId input = Inl thrown \<longrightarrow>
      (\<exists>toolName reason. thrown = ToolExecutionError toolName reason))"
  by (auto simp: registry_execute_def split: option.splits sum.splits)

theorem registry_execute_outcomes_witness:
  "getTool (register id failingTool (register id echoTool new_ToolRegistryService)) ''tool-1''
     = Some echoTool
   \<and> registry_execute (register id failingTool (register id echoTool new_ToolRegistryService))
       ''tool-1'' ''hello'' = Inr ''hello''
   \<and> getTool (register id failingTool (register id echoTool new_ToolRegistryService)) ''tool-2''
     = Some failingTool
   \<and> registry_execute (register id failingTool (register id echoTool new_ToolRegistryService))
       ''tool-2'' ''hello'' = Inl (ToolExecutionError ''broken'' ''boom'')
   \<and> getTool (register id failingTool (register id echoTool new_ToolRegistryService)) ''tool-3''
     = None
   \<and> registry_execute (register id failingTool (register id echoTool new_ToolRegistryService))
       ''tool-3'' ''hello'' = Inl (ToolExecutionError ''tool-3'' ''Tool not found'')"
  using registry_execute_outcomes [of
      "register id failingTool (register id echoTool new_ToolRegistryService)" "''tool-1''"
      echoTool "''hello''" "''hello''" "Error ''boom''" "ToolExecutionError ''broken'' ''boom''"]
    registry_execute_outcomes [of
      "register id failingTool (register id echoTool new_ToolRegistryService)" "''tool-2''"
      failingTool "''hello''" "''hello''" "Error ''boom''" "ToolExecutionError ''broken'' ''boom''"]
    registry_execute_outcomes [of
      "register id failingTool (register id echoTool new_ToolRegistryService)" "''tool-3''"
      failingTool "''hello''" "''hello''" "Error ''boom''"
      "ToolExecutionError ''tool-3'' ''Tool not found''"]
  by (simp add: register_def new_ToolRegistryService_def echoTool_def failingTool_def getTool_def)

section \<open>Routing of the supervisor\<close>

text \<open>
  C6: \<^verbatim>\<open>routeWork\<close> returns \<^verbatim>\<open>end\<close> when the iteration counter (0 when absent) has
  reached \<^verbatim>\<open>maxIterations\<close> (10 when the constructor is given none). Below the limit
  it returns the first worker, in the order of registration, whose lowercased name occurs
  in the lowercased content of the last message, and \<^verbatim>\<open>end\<close> when no worker does. The
  text that is searched is, lowercased, the content itself when the last message has a
  string content, the JSON text of the content when it is structured, and two double
  quotes when there is no message or the last message has no content.
\<close>

theorem routeWork_routes:
  "(graph_maxIterations (g :: 'w MultiAgentGraph) \<le> iteration_count state \<longrightarrow>
        routeWork g state = ''end'')
   \<and> (iteration_count state < graph_maxIterations g
        \<and> map fst (graph_workers g) = earlier @ w # later
        \<and> worker_matches state w
        \<and> (\<forall>v \<in> set earlier. \<not> worker_matches state v) \<longrightarrow>
        routeWork g state = w)
   \<and> (iteration_count state < graph_maxIterations g
        \<and> (\<forall>v \<in> set (map fst (graph_workers g)). \<not> worker_matches state v) \<longrightarrow>
        routeWork g state = ''end'')
   \<and> (st_messages state = ms @ [\<lparr>msg_content = Some (StringContent body)\<rparr>] \<longrightarrow>
        route_content state = toLowerCase body \<and> searched_text state = body)
   \<and> (st_messages state = ms @ [\<lparr>msg_content = Some (ComplexContent json)\<rparr>] \<longrightarrow>
        route_content state = toLowerCase json \<and> searched_text state = json)
   \<and> (st_messages state = [] \<or> st_messages state = ms @ [\<lparr>msg_content = None\<rparr>] \<longrightarrow>
        route_content state = ''\"\"'' \<and> searched_text state = ''\"\"'')
   \<and> route_content state = toLowerCase (searched_text state)
   \<and> graph_maxIterations (new_MultiAgentGraph None :: 'w MultiAgentGraph) = 10"
proof -
  note rc = route_content_searched_text
  have stop: "routeWork g state = ''end''" if "graph_maxIterations g \<le> iteration_count state"
    using that by (simp add: routeWork_def iteration_count_def Let_def)
  have loop: "routeWork g state = route_loop (route_content state) (map fst (graph_workers g))"
    if "iteration_count state < graph_maxIterations g"
    using that by (simp add: routeWork_def iteration_count_def Let_def)
  have first: "routeWork g state = w"
    if "iteration_count state < graph_maxIterations g
        \<and> map fst (graph_workers g) = earlier @ w # later
        \<and> worker_matches state w
        \<and> (\<forall>v \<in> set earlier. \<not> worker_matches state v)"
    using that
    by (simp add: loop worker_matches_def rc [symmetric] includes_str_iff [symmetric]
        route_loop_first)
  have none: "routeWork g state = ''end''"
    if "iteration_count state < graph_maxIterations g
        \<and> (\<forall>v \<in> set (map fst (graph_workers g)). \<not> worker_matches state v)"
    using that
    by (simp add: loop worker_matches_def rc [symmetric] includes_str_iff [symmetric]
        route_loop_none)
  have str: "route_content state = toLowerCase body \<and> searched_text state = body"
    if "st_messages state = ms @ [\<lparr>msg_content = Some (StringContent body)\<rparr>]"
    using that by (simp add: rc searched_text_def)
  have struct: "route_content state = toLowerCase json \<and> searched_text state = json"
    if "st_messages state = ms @ [\<lparr>msg_content = Some (ComplexContent json)\<rparr>]"
    using that by (simp add: rc searched_text_def)
  have absent: "route_content state = ''\"\"'' \<and> searched_text state = ''\"\"''"
    if "st_messages state = [] \<or> st_messages state = ms @ [\<lparr>msg_content = None\<rparr>]"
  proof -
    from that have "searched_text state = ''\"\"''"
      by (auto simp: searched_text_def)
    then show ?thesis by (simp add: rc toLowerCase_quotes)
  qed
  have dflt: "graph_maxIterations (new_MultiAgentGraph None :: 'w MultiAgentGraph) = 10"
    by (simp add: new_MultiAgentGraph_def)
  from stop first none str struct absent rc dflt show ?thesis by blast
qed

theorem routeWork_routes_witness:
  "routeWork exampleGraph (exampleState ''Ask the CODER, then the researcher'' (Some 10)) = ''end''
   \<and> routeWork exampleGraph (exampleState ''Ask the CODER, then the researcher'' None)
        = ''Researcher''
   \<and> routeWork exampleGraph (exampleState ''Ask the CODER'' (Some 9)) = ''Coder''
   \<and> routeWork exampleGraph (exampleState ''Nothing to delegate'' (Some 0)) = ''end''
   \<and> routeWork exampleGraph
        (stateOfMessages [\<lparr>msg_content = Some (ComplexContent
            ''[{\"type\":\"text\",\"text\":\"Ask the Coder\"}]'')\<rparr>]) = ''Coder''
   \<and> routeWork exampleGraph (stateOfMessages []) = ''end''
   \<and> routeWork quoteGraph (stateOfMessages []) = ''\"''
   \<and> routeWork quoteGraph (stateOfMessages [\<lparr>msg_content = None\<rparr>]) = ''\"''"
proof -
  have workers: "map fst (graph_workers exampleGraph) = [] @ ''Researcher'' # [''Coder'']"
    "map fst (graph_workers exampleGraph) = [''Researcher''] @ ''Coder'' # []"
    "map fst (graph_workers quoteGraph) = [] @ ''\"'' # []"
    by (simp_all add: exampleGraph_def quoteGraph_def registerWorker_def new_MultiAgentGraph_def)
  have limit: "graph_maxIterations exampleGraph = 10" "graph_maxIterations quoteGraph = 10"
    by (simp_all add: exampleGraph_def quoteGraph_def registerWorker_def new_MultiAgentGraph_def)
  have count: "iteration_count (exampleState body (Some n)) = n"
    "iteration_count (exampleState body None) = 0"
    "iteration_count (stateOfMessages msgs) = 0" for body n msgs
    by (simp_all add: iteration_count_def exampleState_def stateOfMessages_def)
  have m: "worker_matches (exampleState ''Ask the CODER, then the researcher'' None) ''Researcher''"
    "worker_matches (exampleState ''Ask the CODER'' (Some 9)) ''Coder''"
    "\<not> worker_matches (exampleState ''Ask the CODER'' (Some 9)) ''Researcher''"
    "\<not> worker_matches (exampleState ''Nothing to delegate'' (Some 0)) ''Researcher''"
    "\<not> worker_matches (exampleState ''Nothing to delegate'' (Some 0)) ''Coder''"
    "worker_matches (stateOfMessages [\<lparr>msg_content = Some (ComplexContent
            ''[{\"type\":\"text\",\"text\":\"Ask the Coder\"}]'')\<rparr>]) ''Coder''"
    "\<not> worker_matches (stateOfMessages [\<lparr>msg_content = Some (ComplexContent
            ''[{\"type\":\"text\",\"text\":\"Ask the Coder\"}]'')\<rparr>]) ''Researcher''"
    "\<not> worker_matches (stateOfMessages []) ''Researcher''"
    "\<not> worker_matches (stateOfMessages []) ''Coder''"
    "worker_matches (stateOfMessages []) ''\"''"
    "worker_matches (stateOfMessages [\<lparr>msg_content = None\<rparr>]) ''\"''"
    unfolding worker_matches_def includes_str_iff [symmetric] by code_simp+
  show ?thesis
    using routeWork_routes [of exampleGraph
        "exampleState ''Ask the CODER, then the researcher'' (Some 10)" "[]" "''Researcher''"
        "[''Coder'']" "[\<lparr>msg_content = Some (StringContent ''hello'')\<rparr>]"
        "''Ask the CODER, then the researcher''" "[]"]
      routeWork_routes [of exampleGraph
        "exampleState ''Ask the CODER, then the researcher'' None" "[]" "''Researcher''"
        "[''Coder'']" "[\<lparr>msg_content = Some (StringContent ''hello'')\<rparr>]"
        "''Ask the CODER, then the researcher''" "[]"]
      routeWork_routes [of exampleGraph
        "exampleState ''Ask the CODER'' (Some 9)" "[''Researcher'']" "''Coder''"
        "[]" "[\<lparr>msg_content = Some (StringContent ''hello'')\<rparr>]" "''Ask the CODER''" "[]"]
      routeWork_routes [of exampleGraph
        "exampleState ''Nothing to delegate'' (Some 0)" "[''Researcher'']" "''Coder''"
        "[]" "[\<lparr>msg_content = Some (StringContent ''hello'')\<rparr>]" "''Nothing to delegate''"
        "[]"]
      routeWork_routes [of exampleGraph
        "stateOfMessages [\<lparr>msg_content = Some (ComplexContent
            ''[{\"type\":\"text\",\"text\":\"Ask the Coder\"}]'')\<rparr>]"
        "[''Researcher'']" "''Coder''" "[]" "[]" "[]"
        "''[{\"type\":\"text\",\"text\":\"Ask the Coder\"}]''"]
      routeWork_routes [of exampleGraph "stateOfMessages []" "[''Researcher'']" "''Coder''"
        "[]" "[]" "[]" "[]"]
      routeWork_routes [of quoteGraph "stateOfMessages []" "[]" "''\"''" "[]" "[]" "[]" "[]"]
      routeWork_routes [of quoteGraph "stateOfMessages [\<lparr>msg_content = None\<rparr>]" "[]"
        "''\"''" "[]" "[]" "[]" "[]"]
    by (simp add: workers limit count m)
qed

end
